theory Spec2Isabelle
  imports Main "HOL-Library.AList"
begin

section \<open>Python values\<close>

text \<open>
  The command builders are dynamically typed: an input may be a string, a sequence or a
  mapping, an option value may be a number or a flag.  The values the builders inspect are
  collected in one datatype.  A dictionary is an association list in insertion order; an
  opaque object carries the text its \<^verbatim>\<open>__str__\<close> and \<^verbatim>\<open>__repr__\<close> return.
  Characters are code points below 256; floating-point numbers are not represented.
\<close>

datatype pyval =
    PNone
  | PBool bool
  | PInt int
  | PStr string
  | PList "pyval list"
  | PDict "(pyval \<times> pyval) list"
  | PObj string

text \<open>The exceptions the builders raise or let through.  A message is kept as the parts
  of the f-string that builds it: literal text, a formatted value, or the formatted type
  of a value (\<^verbatim>\<open>{type(var)}\<close>).\<close>

datatype part = Lit string | Fmt pyval | FmtType pyval

datatype error =
    ValidationError "part list"
  | PyException "part list"
  | TypeError
  | KeyError pyval
  | AttributeError

subsection \<open>Builtins: truth value, \<^verbatim>\<open>str\<close>, \<^verbatim>\<open>repr\<close>, \<^verbatim>\<open>list\<close>, \<^verbatim>\<open>dict.get\<close>\<close>

fun truthy :: "pyval \<Rightarrow> bool" where
  "truthy PNone = False"
| "truthy (PBool b) = b"
| "truthy (PInt n) = (n \<noteq> 0)"
| "truthy (PStr s) = (s \<noteq> [])"
| "truthy (PList xs) = (xs \<noteq> [])"
| "truthy (PDict kvs) = (kvs \<noteq> [])"
| "truthy (PObj s) = True"

fun digits :: "nat \<Rightarrow> string" where
  "digits n = (if n < 10 then [char_of (48 + n)]
               else digits (n div 10) @ [char_of (48 + n mod 10)])"

declare digits.simps [simp del]

definition str_int :: "int \<Rightarrow> string" where
  "str_int n = (if n < 0 then CHR ''-'' # digits (nat (- n)) else digits (nat n))"

definition hex_digit :: "nat \<Rightarrow> char" where
  "hex_digit d = (if d < 10 then char_of (48 + d) else char_of (87 + d))"

definition printable :: "char \<Rightarrow> bool" where
  "printable c = (let n = (of_char c :: nat) in
     (32 \<le> n \<and> n \<le> 126) \<or> (161 \<le> n \<and> n \<noteq> 173))"

definition repr_char :: "char \<Rightarrow> char \<Rightarrow> string" where
  "repr_char q c =
     (if c = q \<or> c = CHR 0x5C then [CHR 0x5C, c]
      else if c = CHR 0x09 then [CHR 0x5C, CHR ''t'']
      else if c = CHR 0x0A then [CHR 0x5C, CHR ''n'']
      else if c = CHR 0x0D then [CHR 0x5C, CHR ''r'']
      else if printable c then [c]
      else [CHR 0x5C, CHR ''x'', hex_digit (of_char c div 16), hex_digit (of_char c mod 16)])"

definition repr_str :: "string \<Rightarrow> string" where
  "repr_str s =
     (let q = (if CHR 0x27 \<in> set s \<and> CHR 0x22 \<notin> set s then CHR 0x22 else CHR 0x27)
      in [q] @ concat (map (repr_char q) s) @ [q])"

fun join :: "string \<Rightarrow> string list \<Rightarrow> string" where
  "join sep [] = []"
| "join sep [x] = x"
| "join sep (x # y # ys) = x @ sep @ join sep (y # ys)"

fun repr :: "pyval \<Rightarrow> string" where
  "repr PNone = ''None''"
| "repr (PBool b) = (if b then ''True'' else ''False'')"
| "repr (PInt n) = str_int n"
| "repr (PStr s) = repr_str s"
| "repr (PList xs) = ''['' @ join '', '' (map repr xs) @ '']''"
| "repr (PDict kvs) =
     ''{'' @ join '', '' (map (\<lambda>(k, v). repr k @ '': '' @ repr v) kvs) @ ''}''"
| "repr (PObj s) = s"

fun py_str :: "pyval \<Rightarrow> string" where
  "py_str (PStr s) = s"
| "py_str v = repr v"

text \<open>\<^verbatim>\<open>list(x)\<close>: the elements of a list, the keys of a dictionary, the characters of a
  string; anything else is not iterable.\<close>

fun py_list :: "pyval \<Rightarrow> error + pyval list" where
  "py_list (PList xs) = Inr xs"
| "py_list (PDict kvs) = Inr (map fst kvs)"
| "py_list (PStr s) = Inr (map (\<lambda>c. PStr [c]) s)"
| "py_list v = Inl TypeError"

text \<open>\<^verbatim>\<open>d.get(k)\<close> with a string key: the value, or None when the key is missing; an
  object that is no dictionary has no \<^verbatim>\<open>get\<close>.\<close>

definition dict_get :: "(pyval \<times> pyval) list \<Rightarrow> string \<Rightarrow> pyval" where
  "dict_get kvs k = (case map_of kvs (PStr k) of None \<Rightarrow> PNone | Some v \<Rightarrow> v)"

fun py_get :: "pyval \<Rightarrow> string \<Rightarrow> error + pyval" where
  "py_get (PDict kvs) k = Inr (dict_get kvs k)"
| "py_get v k = Inl AttributeError"

text \<open>\<^verbatim>\<open>v[k]\<close> with a string key: a missing key raises KeyError, a value that is no
  dictionary raises TypeError.\<close>

fun py_getitem :: "pyval \<Rightarrow> string \<Rightarrow> error + pyval" where
  "py_getitem (PDict kvs) k =
     (case map_of kvs (PStr k) of None \<Rightarrow> Inl (KeyError (PStr k)) | Some v \<Rightarrow> Inr v)"
| "py_getitem v k = Inl TypeError"

text \<open>\<^verbatim>\<open>dict(pairs)\<close>: a later pair with a key already present replaces the value and
  keeps the place of the first.\<close>

definition py_dict :: "(pyval \<times> pyval) list \<Rightarrow> (pyval \<times> pyval) list" where
  "py_dict ps = foldl (\<lambda>d (k, v). AList.update k v d) [] ps"

section \<open>cli.py: shape dispatch and argument formatting\<close>

datatype pytype = TStr | TIterable | TDict | TObject

fun isinstance :: "pyval \<Rightarrow> pytype \<Rightarrow> bool" where
  "isinstance v TObject = True"
| "isinstance (PStr s) TStr = True"
| "isinstance v TStr = False"
| "isinstance (PStr s) TIterable = True"
| "isinstance (PList xs) TIterable = True"
| "isinstance (PDict kvs) TIterable = True"
| "isinstance v TIterable = False"
| "isinstance (PDict kvs) TDict = True"
| "isinstance v TDict = False"

type_synonym rule = "pytype option \<times> (pyval \<Rightarrow> error + pyval list)"

text \<open>\<^verbatim>\<open>CLI.default_vars\<close>: the rules are tried in the mapping's order; a rule keyed by a
  type applies to an instance of it, the rule keyed by None applies to None.  When the
  loop ends without a rule the generic exception is raised.\<close>

fun default_vars :: "pyval \<Rightarrow> rule list \<Rightarrow> error + pyval list" where
  "default_vars var [] = Inl (PyException [Lit ''Default not defined for type '', FmtType var])"
| "default_vars var ((Some t, f) # rest) =
     (if isinstance var t then f var else default_vars var rest)"
| "default_vars var ((None, f) # rest) =
     (if var = PNone then f var else default_vars var rest)"

definition default_var_mapping :: "pyval list \<Rightarrow> rule list" where
  "default_var_mapping dflt =
     [(Some TStr, \<lambda>x. Inr [x]),
      (Some TIterable, \<lambda>x. py_list x),
      (None, \<lambda>x. Inr dflt),
      (Some TObject, \<lambda>x. Inr [PStr (py_str x)])]"

definition default_var :: "pyval \<Rightarrow> pyval list \<Rightarrow> error + pyval list" where
  "default_var var dflt = default_vars var (default_var_mapping dflt)"

fun format_op_args :: "string \<Rightarrow> pyval \<Rightarrow> pyval list" where
  "format_op_args op PNone = []"
| "format_op_args op (PStr s) = [PStr op, PStr s]"
| "format_op_args op (PList xs) = PStr op # xs"
| "format_op_args op (PDict kvs) = PStr op # map fst kvs"
| "format_op_args op v = [PStr op, PStr (py_str v)]"

definition format_option :: "(pyval \<times> pyval) list \<Rightarrow> string \<Rightarrow> pyval list \<Rightarrow> pyval list" where
  "format_option options option dflt =
     (if truthy (dict_get options option) then [PStr option] else dflt)"

text \<open>\<^verbatim>\<open>CLI.run\<close>.  A binding supplies the abstract methods; \<open>run\<close> is the same for all.
  What \<open>run\<close> does besides returning is the sequence of calls it makes, so the model
  returns that sequence with the result: the error raised, or the argument list handed to
  the subprocess (whose completed process is what the source returns).\<close>

record 's cli =
  empty_command :: "pyval list"
  test_args_empty :: "'s \<Rightarrow> bool"
  validate_input :: "'s \<Rightarrow> error + unit"
  validate_output :: "'s \<Rightarrow> error + unit"
  validate_operators :: "'s \<Rightarrow> error + unit"
  validate_options :: "'s \<Rightarrow> error + unit"
  prepare_command :: "'s \<Rightarrow> pyval list"

datatype call =
    ValidateInput
  | ValidateOutput
  | ValidateOperators
  | ValidateOptions
  | PrepareCommand
  | Subprocess "pyval list"

definition run :: "'s cli \<Rightarrow> 's \<Rightarrow> call list \<times> (error + pyval list)" where
  "run b self =
     (if test_args_empty b self
      then ([Subprocess (empty_command b)], Inr (empty_command b))
      else case validate_input b self of
        Inl e \<Rightarrow> ([ValidateInput], Inl e)
      | Inr _ \<Rightarrow>
      (case validate_output b self of
        Inl e \<Rightarrow> ([ValidateInput, ValidateOutput], Inl e)
      | Inr _ \<Rightarrow>
      (case validate_operators b self of
        Inl e \<Rightarrow> ([ValidateInput, ValidateOutput, ValidateOperators], Inl e)
      | Inr _ \<Rightarrow>
      (case validate_options b self of
        Inl e \<Rightarrow> ([ValidateInput, ValidateOutput, ValidateOperators, ValidateOptions], Inl e)
      | Inr _ \<Rightarrow>
        (let command = prepare_command b self
         in ([ValidateInput, ValidateOutput, ValidateOperators, ValidateOptions,
              PrepareCommand, Subprocess command], Inr command))))))"

section \<open>utils.py\<close>

text \<open>\<^verbatim>\<open>flatten\<close>: for each key of the mapping, the token \<^verbatim>\<open>"-" + key\<close> and the value.
  Concatenating a string with a key that is no string raises TypeError.\<close>

fun flatten_items :: "(pyval \<times> pyval) list \<Rightarrow> error + pyval list" where
  "flatten_items [] = Inr []"
| "flatten_items ((PStr key, v) # rest) =
     (case flatten_items rest of
        Inl e \<Rightarrow> Inl e
      | Inr flattened \<Rightarrow> Inr (PStr (''-'' @ key) # v # flattened))"
| "flatten_items ((k, v) # rest) = Inl TypeError"

fun flatten :: "pyval \<Rightarrow> error + pyval list" where
  "flatten PNone = Inr []"
| "flatten (PDict arg_map) = flatten_items arg_map"
| "flatten v = Inl AttributeError"

section \<open>pdftk.py\<close>

record pdftk =
  pdftk_input :: "pyval list"
  pdftk_output :: "pyval list"
  pdftk_input_pw :: "pyval list"
  pdftk_operation :: "pyval list"
  pdftk_operation_arguments :: "pyval list"
  pdftk_allow :: "pyval list"
  pdftk_owner_pw :: "pyval list"
  pdftk_user_pw :: "pyval list"
  pdftk_encrypt :: "pyval list"
  pdftk_flatten :: "pyval list"
  pdftk_need_appearances :: "pyval list"
  pdftk_compress :: "pyval list"
  pdftk_uncompress :: "pyval list"
  pdftk_keep_first_id :: "pyval list"
  pdftk_keep_final_id :: "pyval list"
  pdftk_drop_xfa :: "pyval list"
  pdftk_verbose :: "pyval list"
  pdftk_ask :: "pyval list"

definition format_input_vars_mapping :: "rule list" where
  "format_input_vars_mapping =
     [(Some TStr, \<lambda>x. Inr [x]),
      (Some TIterable, \<lambda>x. py_list x),
      (Some TDict, \<lambda>x. case x of
          PDict kvs \<Rightarrow> Inr (map (\<lambda>(k, v). PStr (py_str k @ ''='' @ py_str v)) kvs)
        | _ \<Rightarrow> Inl AttributeError),
      (None, \<lambda>x. Inr []),
      (Some TObject, \<lambda>x. Inr [PStr (py_str x)])]"

definition format_input_vars :: "pyval \<Rightarrow> error + pyval list" where
  "format_input_vars var = default_vars var format_input_vars_mapping"

definition format_ask :: "pyval \<Rightarrow> pyval list" where
  "format_ask ask = (if truthy ask then [PStr ''ask''] else [PStr ''dont_ask''])"

definition format_encrypt :: "pyval \<Rightarrow> error + pyval list" where
  "format_encrypt encrypt =
     (if encrypt = PNone then Inr []
      else if encrypt = PInt 40 then Inr [PStr ''encrypt_40bit'']
      else if encrypt = PInt 128 then Inr [PStr ''encrypt_128bit'']
      else Inl (PyException [Lit ''Invalid encrypt option '', Fmt encrypt,
                             Lit ''. Value must be 40 or 128'']))"

definition assign_input :: "pyval \<Rightarrow> error + pyval list" where
  "assign_input inp = (if inp \<noteq> PNone then format_input_vars inp else Inr [])"

definition assign_output :: "pyval \<Rightarrow> pyval list" where
  "assign_output output = (if output \<noteq> PNone then format_op_args ''output'' output else [])"

text \<open>\<^verbatim>\<open>assign_operators\<close> and \<^verbatim>\<open>assign_options\<close> return their groups as tuples, in the
  order of the source's \<^verbatim>\<open>return\<close> statements.\<close>

type_synonym pdftk_operators =
  "pyval list \<times> pyval list \<times> pyval list \<times> pyval list \<times> pyval list \<times> pyval list"

type_synonym pdftk_options =
  "pyval list \<times> pyval list \<times> pyval list \<times> pyval list \<times> pyval list \<times>
   pyval list \<times> pyval list \<times> pyval list \<times> pyval list \<times> pyval list"

definition assign_operators :: "pyval \<Rightarrow> error + pdftk_operators" where
  "assign_operators operators =
     (if operators = PNone then Inr ([], [], [], [], [], [])
      else case py_get operators ''input_pw'' of Inl e \<Rightarrow> Inl e | Inr ipw \<Rightarrow>
      (case format_input_vars ipw of Inl e \<Rightarrow> Inl e | Inr input_pw \<Rightarrow>
      (case py_get operators ''operation'' of Inl e \<Rightarrow> Inl e | Inr opn \<Rightarrow>
      (case default_var opn [] of Inl e \<Rightarrow> Inl e | Inr operation \<Rightarrow>
      (case py_get operators ''operation_arguments'' of Inl e \<Rightarrow> Inl e | Inr args \<Rightarrow>
      (case default_var args [] of Inl e \<Rightarrow> Inl e | Inr operation_arguments \<Rightarrow>
      (case py_get operators ''allow'' of Inl e \<Rightarrow> Inl e | Inr al \<Rightarrow>
      (case py_get operators ''owner_pw'' of Inl e \<Rightarrow> Inl e | Inr opw \<Rightarrow>
      (case py_get operators ''user_pw'' of Inl e \<Rightarrow> Inl e | Inr upw \<Rightarrow>
         Inr (input_pw, operation, operation_arguments,
              format_op_args ''allow'' al,
              format_op_args ''owner_pw'' opw,
              format_op_args ''user_pw'' upw))))))))))"

definition assign_options :: "pyval \<Rightarrow> error + pdftk_options" where
  "assign_options options =
     (if options = PNone then Inr ([], [], [], [], [], [], [], [], [], [])
      else case options of
        PDict kvs \<Rightarrow>
          (case format_encrypt (dict_get kvs ''encrypt'') of
             Inl e \<Rightarrow> Inl e
           | Inr encrypt \<Rightarrow>
               Inr (encrypt,
                    format_option kvs ''flatten'' [],
                    format_option kvs ''need_appearances'' [],
                    format_option kvs ''compress'' [],
                    format_option kvs ''uncompress'' [],
                    format_option kvs ''drop_xfa'' [],
                    format_option kvs ''keep_first_id'' [],
                    format_option kvs ''keep_final_id'' [],
                    format_option kvs ''verbose'' [],
                    format_ask (dict_get kvs ''ask'')))
      | _ \<Rightarrow> Inl AttributeError)"

text \<open>\<^verbatim>\<open>PDFTK.__init__\<close>: the groups are unpacked into the attributes in the order of
  the assignment targets of the source.\<close>

definition PDFTK :: "pyval \<Rightarrow> pyval \<Rightarrow> pyval \<Rightarrow> pyval \<Rightarrow> error + pdftk" where
  "PDFTK inp output operators options =
     (case assign_input inp of Inl e \<Rightarrow> Inl e | Inr input_tokens \<Rightarrow>
     (case assign_operators operators of
        Inl e \<Rightarrow> Inl e
      | Inr (input_pw, operation, operation_arguments, allow, owner_pw, user_pw) \<Rightarrow>
     (case assign_options options of
        Inl e \<Rightarrow> Inl e
      | Inr (encrypt, flatten_group, need_appearances, compress, uncompress,
             keep_first_id, keep_final_id, drop_xfa, verbose, ask) \<Rightarrow>
          Inr \<lparr>pdftk_input = input_tokens,
               pdftk_output = assign_output output,
               pdftk_input_pw = input_pw,
               pdftk_operation = operation,
               pdftk_operation_arguments = operation_arguments,
               pdftk_allow = allow,
               pdftk_owner_pw = owner_pw,
               pdftk_user_pw = user_pw,
               pdftk_encrypt = encrypt,
               pdftk_flatten = flatten_group,
               pdftk_need_appearances = need_appearances,
               pdftk_compress = compress,
               pdftk_uncompress = uncompress,
               pdftk_keep_first_id = keep_first_id,
               pdftk_keep_final_id = keep_final_id,
               pdftk_drop_xfa = drop_xfa,
               pdftk_verbose = verbose,
               pdftk_ask = ask\<rparr>)))"

subsection \<open>Regular expressions of the validators\<close>

text \<open>\<^verbatim>\<open>\S\<close> on a text pattern: a character that is no Unicode white space.\<close>

definition whitespace :: "char \<Rightarrow> bool" where
  "whitespace c = (let n = (of_char c :: nat) in
     (9 \<le> n \<and> n \<le> 13) \<or> (28 \<le> n \<and> n \<le> 32) \<or> n = 133 \<or> n = 160)"

text \<open>\<^verbatim>\<open>re.search(r'\S+', s)\<close> finds a match when some character is no white space.\<close>

definition search_nonspace :: "string \<Rightarrow> bool" where
  "search_nonspace s = list_ex (\<lambda>c. \<not> whitespace c) s"

text \<open>\<^verbatim>\<open>re.search(r'.+\.pdf|PROMPT', s)\<close>: the first alternative matches at a character
  other than a newline that is followed by \<^verbatim>\<open>.pdf\<close>, the second wherever \<^verbatim>\<open>PROMPT\<close>
  occurs; the search tries every position.\<close>

fun search_dot_pdf :: "string \<Rightarrow> bool" where
  "search_dot_pdf [] = False"
| "search_dot_pdf (c # rest) =
     ((c \<noteq> CHR 0x0A \<and> take 4 rest = ''.pdf'') \<or> search_dot_pdf rest)"

fun search_literal :: "string \<Rightarrow> string \<Rightarrow> bool" where
  "search_literal pat [] = (pat = [])"
| "search_literal pat (c # rest) =
     (take (length pat) (c # rest) = pat \<or> search_literal pat rest)"

definition search_pdf_or_prompt :: "string \<Rightarrow> bool" where
  "search_pdf_or_prompt s = (search_dot_pdf s \<or> search_literal ''PROMPT'' s)"

subsection \<open>Validators\<close>

text \<open>\<^verbatim>\<open>validate_input\<close> asks the file system (\<^verbatim>\<open>os.path.isfile\<close>, a parameter here) about
  each token.  The loop returns the paths it has asked about, in order, with its result.\<close>

fun validate_input_loop ::
  "(string \<Rightarrow> bool) \<Rightarrow> pyval list \<Rightarrow> string list \<Rightarrow> string list \<times> (error + unit)" where
  "validate_input_loop isfile [] probed = (probed, Inr ())"
| "validate_input_loop isfile (PStr i # rest) probed =
     (if isfile i then validate_input_loop isfile rest (probed @ [i])
      else if i = ''PROMPT'' then validate_input_loop isfile rest (probed @ [i])
      else (probed @ [i], Inl (ValidationError [Lit ''Invalid input value: '', Fmt (PStr i)])))"
| "validate_input_loop isfile (i # rest) probed =
     (probed, Inl (ValidationError [Lit ''Invalid input value: '', Fmt i]))"

definition PDFTK_validate_input ::
  "(string \<Rightarrow> bool) \<Rightarrow> pdftk \<Rightarrow> string list \<times> (error + unit)" where
  "PDFTK_validate_input isfile self = validate_input_loop isfile (pdftk_input self) []"

fun validate_output_loop :: "pyval list \<Rightarrow> pyval list \<Rightarrow> error + unit" where
  "validate_output_loop inp [] = Inr ()"
| "validate_output_loop inp (PStr i # rest) =
     (if \<not> search_pdf_or_prompt i
      then Inl (ValidationError [Lit ''Invalid output value: '', Fmt (PStr i)])
      else if PStr i \<in> set inp
      then Inl (ValidationError [Lit ''Invalid output value: '', Fmt (PStr i)])
      else validate_output_loop inp rest)"
| "validate_output_loop inp (i # rest) = Inl TypeError"

definition PDFTK_validate_output :: "pdftk \<Rightarrow> error + unit" where
  "PDFTK_validate_output self =
     (if pdftk_output self \<noteq> []
      then validate_output_loop (pdftk_input self) (tl (pdftk_output self))
      else Inr ())"

definition allowable_ops :: "pyval list" where
  "allowable_ops = map PStr
     [''cat'', ''shuffle'', ''burst'', ''rotate'', ''generate_fdf'', ''fill_form'',
      ''background'', ''multibackground'', ''stamp'', ''multistamp'', ''dump_data'',
      ''dump_data_utf8'', ''dump_data_fields'', ''dump_data_fields_utf8'',
      ''dump_data_anots'', ''update_info'', ''update_info_utf8'', ''attach_files'',
      ''unpack_files'']"

definition validate_operation :: "pdftk \<Rightarrow> error + unit" where
  "validate_operation self =
     (if pdftk_operation self \<noteq> [] \<and>
         \<not> (length (pdftk_operation self) = 1 \<and> hd (pdftk_operation self) \<in> set allowable_ops)
      then Inl (ValidationError
             [Lit ''Invalid operation: '', Fmt (PList (pdftk_operation self)),
              Lit (CHR 0x0A # ''Operation must be in ''), Fmt (PList allowable_ops)])
      else Inr ())"

definition validate_operation_args :: "pdftk \<Rightarrow> error + unit" where
  "validate_operation_args self = Inr ()"

definition allowable :: "pyval list" where
  "allowable = map PStr
     [''allow'', ''Printing'', ''DegradedPrinting'', ''ModifyContents'', ''Assembly'',
      ''CopyContents'', ''ScreenReaders'', ''ModifyAnnotations'', ''FillIn'',
      ''AllFeatures'']"

definition validate_permissions :: "pdftk \<Rightarrow> error + unit" where
  "validate_permissions self =
     (let not_in_allowable = filter (\<lambda>i. i \<notin> set allowable) (pdftk_allow self)
      in if length not_in_allowable = 0 then Inr ()
         else Inl (ValidationError
                [Lit ''Invalid permission(s): '', Fmt (PList not_in_allowable),
                 Lit (CHR 0x0A # ''Permission must be in ''), Fmt (PList allowable)]))"

text \<open>\<^verbatim>\<open>validate_pw\<close> looks at the first token of the group it is given.\<close>

fun validate_pw :: "string \<Rightarrow> pyval list \<Rightarrow> error + unit" where
  "validate_pw pw_type [] = Inr ()"
| "validate_pw pw_type (PStr s # rest) =
     (if search_nonspace s then Inr ()
      else Inl (ValidationError
             [Lit ''Invalid '', Fmt (PStr pw_type), Lit '': '', Fmt (PList (PStr s # rest))]))"
| "validate_pw pw_type (v # rest) = Inl TypeError"

definition validate_pws :: "pdftk \<Rightarrow> error + unit" where
  "validate_pws self =
     (case validate_pw ''input_pw'' (pdftk_input_pw self) of Inl e \<Rightarrow> Inl e | Inr _ \<Rightarrow>
     (case validate_pw ''owner_pw'' (pdftk_owner_pw self) of Inl e \<Rightarrow> Inl e | Inr _ \<Rightarrow>
      validate_pw ''user_pw'' (pdftk_user_pw self)))"

definition PDFTK_validate_operators :: "pdftk \<Rightarrow> error + unit" where
  "PDFTK_validate_operators self =
     (case validate_operation self of Inl e \<Rightarrow> Inl e | Inr _ \<Rightarrow>
     (case validate_operation_args self of Inl e \<Rightarrow> Inl e | Inr _ \<Rightarrow>
     (case validate_permissions self of Inl e \<Rightarrow> Inl e | Inr _ \<Rightarrow>
      validate_pws self)))"

definition validate_option :: "pyval list \<Rightarrow> string list \<Rightarrow> error + unit" where
  "validate_option option valid =
     (if option \<noteq> [] \<and> hd option \<notin> set (map PStr valid)
      then Inl (ValidationError [Lit ''Invalid option '', Fmt (PList option)])
      else Inr ())"

fun validate_each :: "(pyval list \<times> string list) list \<Rightarrow> error + unit" where
  "validate_each [] = Inr ()"
| "validate_each ((option, valid) # rest) =
     (case validate_option option valid of Inl e \<Rightarrow> Inl e | Inr _ \<Rightarrow> validate_each rest)"

definition PDFTK_validate_options :: "pdftk \<Rightarrow> error + unit" where
  "PDFTK_validate_options self = validate_each
     [(pdftk_encrypt self, [''encrypt_40bit'', ''encrypt_128bit'']),
      (pdftk_flatten self, [''flatten'']),
      (pdftk_need_appearances self, [''need_appearances'']),
      (pdftk_compress self, [''compress'']),
      (pdftk_uncompress self, [''uncompress'']),
      (pdftk_keep_first_id self, [''keep_first_id'']),
      (pdftk_keep_final_id self, [''keep_final_id'']),
      (pdftk_drop_xfa self, [''drop_xfa'']),
      (pdftk_ask self, [''ask'', ''dont_ask''])]"

definition PDFTK_test_args_empty :: "pdftk \<Rightarrow> bool" where
  "PDFTK_test_args_empty self =
     (pdftk_input self = [] \<and> pdftk_output self = [] \<and> pdftk_operation self = [])"

definition PDFTK_prepare_command :: "pdftk \<Rightarrow> pyval list" where
  "PDFTK_prepare_command self =
     [PStr ''pdftk'']
     @ pdftk_input self
     @ pdftk_input_pw self
     @ pdftk_operation self
     @ pdftk_operation_arguments self
     @ pdftk_output self
     @ pdftk_encrypt self
     @ pdftk_allow self
     @ pdftk_owner_pw self
     @ pdftk_user_pw self
     @ pdftk_flatten self
     @ pdftk_need_appearances self
     @ pdftk_compress self
     @ pdftk_uncompress self
     @ pdftk_keep_first_id self
     @ pdftk_keep_final_id self
     @ pdftk_drop_xfa self
     @ pdftk_verbose self
     @ pdftk_ask self"

text \<open>The PDF binding as an instance of the abstract class.\<close>

definition PDFTK_cli :: "(string \<Rightarrow> bool) \<Rightarrow> pdftk cli" where
  "PDFTK_cli isfile =
     \<lparr>empty_command = [PStr ''pdftk'', PStr ''--version''],
      test_args_empty = PDFTK_test_args_empty,
      validate_input = (\<lambda>self. snd (PDFTK_validate_input isfile self)),
      validate_output = PDFTK_validate_output,
      validate_operators = PDFTK_validate_operators,
      validate_options = PDFTK_validate_options,
      prepare_command = PDFTK_prepare_command\<rparr>"

section \<open>magick.py\<close>

record magick =
  magick_input :: "pyval list"
  magick_output :: "pyval list"
  pre_image_settings :: "pyval list"
  post_image_settings :: "pyval list"

text \<open>\<^verbatim>\<open>get_settings\<close>: the generator goes through the items in order, subscripts the
  descriptor for its type, then (only for a setting) its position, then (only at the
  requested position) its value; \<^verbatim>\<open>dict\<close> collects the pairs.\<close>

fun get_settings_pairs :: "(pyval \<times> pyval) list \<Rightarrow> string \<Rightarrow> error + (pyval \<times> pyval) list" where
  "get_settings_pairs [] position = Inr []"
| "get_settings_pairs ((k, v) # rest) position =
     (case py_getitem v ''type'' of Inl e \<Rightarrow> Inl e | Inr t \<Rightarrow>
        if t = PStr ''setting''
        then (case py_getitem v ''position'' of Inl e \<Rightarrow> Inl e | Inr pos \<Rightarrow>
          if pos = PStr position
          then (case py_getitem v ''value'' of Inl e \<Rightarrow> Inl e | Inr val \<Rightarrow>
            (case get_settings_pairs rest position of
               Inl e \<Rightarrow> Inl e
             | Inr ps \<Rightarrow> Inr ((k, PStr (py_str val)) # ps)))
          else get_settings_pairs rest position)
        else get_settings_pairs rest position)"

fun get_settings :: "pyval \<Rightarrow> string \<Rightarrow> error + pyval" where
  "get_settings (PDict operators) position =
     (case get_settings_pairs operators position of
        Inl e \<Rightarrow> Inl e
      | Inr ps \<Rightarrow> Inr (PDict (py_dict ps)))"
| "get_settings v position = Inl AttributeError"

definition Magick_assign_operators :: "pyval \<Rightarrow> error + (pyval list \<times> pyval list)" where
  "Magick_assign_operators operators =
     (if operators \<noteq> PNone
      then case get_settings operators ''pre'' of Inl e \<Rightarrow> Inl e | Inr pre \<Rightarrow>
          (case get_settings operators ''post'' of Inl e \<Rightarrow> Inl e | Inr post \<Rightarrow>
          (case flatten pre of Inl e \<Rightarrow> Inl e | Inr pre_tokens \<Rightarrow>
          (case flatten post of Inl e \<Rightarrow> Inl e | Inr post_tokens \<Rightarrow>
             Inr (pre_tokens, post_tokens))))
      else Inr ([], []))"

definition Magick_assign_input :: "pyval \<Rightarrow> error + pyval list" where
  "Magick_assign_input inp = default_var inp []"

definition Magick_assign_output :: "pyval \<Rightarrow> pyval list" where
  "Magick_assign_output output = (if output \<noteq> PNone then [output] else [])"

definition Magick :: "pyval \<Rightarrow> pyval \<Rightarrow> pyval \<Rightarrow> error + magick" where
  "Magick inp output operators =
     (case Magick_assign_input inp of Inl e \<Rightarrow> Inl e | Inr input_tokens \<Rightarrow>
     (case Magick_assign_operators operators of
        Inl e \<Rightarrow> Inl e
      | Inr (pre, post) \<Rightarrow>
          Inr \<lparr>magick_input = input_tokens,
               magick_output = Magick_assign_output output,
               pre_image_settings = pre,
               post_image_settings = post\<rparr>))"

definition Magick_prepare_command :: "magick \<Rightarrow> pyval list" where
  "Magick_prepare_command self =
     [PStr ''magick'']
     @ pre_image_settings self
     @ magick_input self
     @ post_image_settings self
     @ magick_output self"

definition Magick_test_args_empty :: "magick \<Rightarrow> bool" where
  "Magick_test_args_empty self =
     (pre_image_settings self = [] \<and> magick_input self = [] \<and>
      post_image_settings self = [] \<and> magick_output self = [])"

definition Magick_cli :: "magick cli" where
  "Magick_cli =
     \<lparr>empty_command = [PStr ''magick'', PStr ''-version''],
      test_args_empty = Magick_test_args_empty,
      validate_input = (\<lambda>self. Inr ()),
      validate_output = (\<lambda>self. Inr ()),
      validate_operators = (\<lambda>self. Inr ()),
      validate_options = (\<lambda>self. Inr ()),
      prepare_command = Magick_prepare_command\<rparr>"

text \<open>\<^verbatim>\<open>magick(...)\<close> ends with \<^verbatim>\<open>Magick(input_, output, operators).run()\<close>: construct, then
  run.  An exception of the constructor comes before any call of \<open>run\<close>.\<close>

definition Magick_run :: "pyval \<Rightarrow> pyval \<Rightarrow> pyval \<Rightarrow> call list \<times> (error + pyval list)" where
  "Magick_run inp output operators =
     (case Magick inp output operators of
        Inl e \<Rightarrow> ([], Inl e)
      | Inr self \<Rightarrow> run Magick_cli self)"

section \<open>pdftk.py: construct and run\<close>

text \<open>\<^verbatim>\<open>make_command\<close> ends with \<^verbatim>\<open>PDFTK(input_, output, operators, options).run()\<close>.\<close>

definition PDFTK_run ::
  "(string \<Rightarrow> bool) \<Rightarrow> pyval \<Rightarrow> pyval \<Rightarrow> pyval \<Rightarrow> pyval \<Rightarrow> call list \<times> (error + pyval list)" where
  "PDFTK_run isfile inp output operators options =
     (case PDFTK inp output operators options of
        Inl e \<Rightarrow> ([], Inl e)
      | Inr self \<Rightarrow> run (PDFTK_cli isfile) self)"

section \<open>Vocabulary of the properties\<close>

text \<open>A file system without files, and the object \<^verbatim>\<open>PDFTK()\<close> builds from no arguments.\<close>

definition no_files :: "string \<Rightarrow> bool" where
  "no_files path = False"

definition no_args :: pdftk where
  "no_args =
     \<lparr>pdftk_input = [], pdftk_output = [], pdftk_input_pw = [], pdftk_operation = [],
      pdftk_operation_arguments = [], pdftk_allow = [], pdftk_owner_pw = [],
      pdftk_user_pw = [], pdftk_encrypt = [], pdftk_flatten = [],
      pdftk_need_appearances = [], pdftk_compress = [], pdftk_uncompress = [],
      pdftk_keep_first_id = [], pdftk_keep_final_id = [], pdftk_drop_xfa = [],
      pdftk_verbose = [], pdftk_ask = []\<rparr>"

text \<open>The specification's reading of the output rule: a token is a name that ends in
  \<^verbatim>\<open>.pdf\<close>, or it is the word \<^verbatim>\<open>PROMPT\<close> itself.\<close>

definition spec_pdf_filename_or_PROMPT :: "string \<Rightarrow> bool" where
  "spec_pdf_filename_or_PROMPT s =
     (s = ''PROMPT'' \<or> (4 < length s \<and> drop (length s - 4) s = ''.pdf''))"

text \<open>What lets an input token pass in \<^verbatim>\<open>validate_input\<close>.\<close>

definition input_passes :: "(string \<Rightarrow> bool) \<Rightarrow> pyval \<Rightarrow> bool" where
  "input_passes isfile i = (case i of PStr s \<Rightarrow> isfile s \<or> s = ''PROMPT'' | _ \<Rightarrow> False)"

text \<open>The image binding's operator map as the specification describes it: a list of
  settings (name, position, value) in insertion order, each turned into a descriptor.\<close>

definition setting :: "string \<Rightarrow> pyval \<Rightarrow> pyval" where
  "setting position val =
     PDict [(PStr ''type'', PStr ''setting''),
            (PStr ''position'', PStr position),
            (PStr ''value'', val)]"

definition operator_map :: "(string \<times> string \<times> pyval) list \<Rightarrow> pyval" where
  "operator_map specs = PDict (map (\<lambda>(name, position, val). (PStr name, setting position val)) specs)"

definition setting_tokens :: "string \<Rightarrow> (string \<times> string \<times> pyval) list \<Rightarrow> pyval list" where
  "setting_tokens position specs =
     concat (map (\<lambda>(name, pos, val). [PStr (''-'' @ name), PStr (py_str val)])
                 (filter (\<lambda>(name, pos, val). pos = position) specs))"

text \<open>The pairs \<^verbatim>\<open>get_settings\<close> retains for a position, from such a list.\<close>

definition retained :: "string \<Rightarrow> (string \<times> string \<times> pyval) list \<Rightarrow> (pyval \<times> pyval) list" where
  "retained position specs =
     map (\<lambda>(name, pos, val). (PStr name, PStr (py_str val)))
         (filter (\<lambda>(name, pos, val). pos = position) specs)"

section \<open>Properties of the shape dispatch\<close>

lemma default_var_shapes:
  "default_var (PStr s) dflt = Inr [PStr s]"
  "default_var (PList xs) dflt = Inr xs"
  "default_var (PDict kvs) dflt = Inr (map fst kvs)"
  "default_var PNone dflt = Inr dflt"
  "default_var (PBool b) dflt = Inr [PStr (py_str (PBool b))]"
  "default_var (PInt n) dflt = Inr [PStr (py_str (PInt n))]"
  "default_var (PObj t) dflt = Inr [PStr t]"
  by (simp_all add: default_var_def default_var_mapping_def)

lemma format_input_vars_shapes:
  "format_input_vars (PStr s) = Inr [PStr s]"
  "format_input_vars (PList xs) = Inr xs"
  "format_input_vars (PDict kvs) = Inr (map fst kvs)"
  "format_input_vars PNone = Inr []"
  "format_input_vars (PBool b) = Inr [PStr (py_str (PBool b))]"
  "format_input_vars (PInt n) = Inr [PStr (py_str (PInt n))]"
  "format_input_vars (PObj t) = Inr [PStr t]"
  by (simp_all add: format_input_vars_def format_input_vars_mapping_def)

lemma default_var_total: "\<exists>tokens. default_var var dflt = Inr tokens"
  by (cases var) (simp_all add: default_var_shapes)

lemma format_input_vars_total: "\<exists>tokens. format_input_vars var = Inr tokens"
  by (cases var) (simp_all add: format_input_vars_shapes)

lemma assign_input_total: "\<exists>tokens. assign_input inp = Inr tokens"
  using format_input_vars_total by (simp add: assign_input_def)

lemma assign_operators_dict: "\<exists>groups. assign_operators (PDict ops) = Inr groups"
proof -
  obtain a where a: "format_input_vars (dict_get ops ''input_pw'') = Inr a"
    using format_input_vars_total by blast
  obtain b where b: "default_var (dict_get ops ''operation'') [] = Inr b"
    using default_var_total by blast
  obtain c where c: "default_var (dict_get ops ''operation_arguments'') [] = Inr c"
    using default_var_total by blast
  show ?thesis by (simp add: assign_operators_def a b c)
qed

text \<open>
  C9.  Whatever the value (a string, a list, a dictionary, None, a number, a flag, any
  other object), \<^verbatim>\<open>default_var\<close> and \<^verbatim>\<open>format_input_vars\<close> return a token list: the
  dispatch of \<^verbatim>\<open>default_vars\<close> finds a rule in both rule sets, so the exception
  "Default not defined for type" at the end of the loop is never raised.
\<close>

theorem dispatch_always_finds_a_rule:
  "(\<exists>tokens. default_var var dflt = Inr tokens) \<and>
   (\<exists>tokens. format_input_vars var = Inr tokens) \<and>
   default_var var dflt \<noteq> Inl (PyException [Lit ''Default not defined for type '', FmtType var]) \<and>
   format_input_vars var \<noteq> Inl (PyException [Lit ''Default not defined for type '', FmtType var])"
  by (cases var) (simp_all add: default_var_shapes format_input_vars_shapes)



section \<open>Properties of \<open>run\<close>\<close>

text \<open>
  C1.  For every binding, when the invocation is no no-op, \<open>run\<close> calls the validators
  in the order input, output, operators, options and stops at the first that fails: the
  calls made are exactly those up to the failing validator and the result is its error.
  The command is prepared and the subprocess started only when all four succeed; when the
  result is an error, neither happens.
\<close>

theorem run_validates_in_order:
  assumes "\<not> test_args_empty b self"
  shows
    "(validate_input b self = Inl e \<longrightarrow> run b self = ([ValidateInput], Inl e)) \<and>
     (validate_input b self = Inr () \<and> validate_output b self = Inl e \<longrightarrow>
        run b self = ([ValidateInput, ValidateOutput], Inl e)) \<and>
     (validate_input b self = Inr () \<and> validate_output b self = Inr () \<and>
      validate_operators b self = Inl e \<longrightarrow>
        run b self = ([ValidateInput, ValidateOutput, ValidateOperators], Inl e)) \<and>
     (validate_input b self = Inr () \<and> validate_output b self = Inr () \<and>
      validate_operators b self = Inr () \<and> validate_options b self = Inl e \<longrightarrow>
        run b self =
          ([ValidateInput, ValidateOutput, ValidateOperators, ValidateOptions], Inl e)) \<and>
     (validate_input b self = Inr () \<and> validate_output b self = Inr () \<and>
      validate_operators b self = Inr () \<and> validate_options b self = Inr () \<longrightarrow>
        run b self =
          ([ValidateInput, ValidateOutput, ValidateOperators, ValidateOptions,
            PrepareCommand, Subprocess (prepare_command b self)],
           Inr (prepare_command b self))) \<and>
     (snd (run b self) = Inl e \<longrightarrow>
        PrepareCommand \<notin> set (fst (run b self)) \<and>
        Subprocess c \<notin> set (fst (run b self)))"
  using assms by (auto simp add: run_def Let_def split: sum.splits)

text \<open>The test of the specification: the input \<^verbatim>\<open>missing.pdf\<close> does not exist and the
  output \<^verbatim>\<open>report.txt\<close> has the wrong extension; only the input failure is reported.\<close>

theorem run_validates_in_order_witness:
  "PDFTK (PStr ''missing.pdf'') (PStr ''report.txt'') PNone PNone =
     Inr (no_args\<lparr>pdftk_input := [PStr ''missing.pdf''],
                  pdftk_output := [PStr ''output'', PStr ''report.txt'']\<rparr>) \<and>
   \<not> test_args_empty (PDFTK_cli no_files)
       (no_args\<lparr>pdftk_input := [PStr ''missing.pdf''],
                pdftk_output := [PStr ''output'', PStr ''report.txt'']\<rparr>) \<and>
   validate_input (PDFTK_cli no_files)
       (no_args\<lparr>pdftk_input := [PStr ''missing.pdf''],
                pdftk_output := [PStr ''output'', PStr ''report.txt'']\<rparr>) =
     Inl (ValidationError [Lit ''Invalid input value: '', Fmt (PStr ''missing.pdf'')]) \<and>
   validate_output (PDFTK_cli no_files)
       (no_args\<lparr>pdftk_input := [PStr ''missing.pdf''],
                pdftk_output := [PStr ''output'', PStr ''report.txt'']\<rparr>) =
     Inl (ValidationError [Lit ''Invalid output value: '', Fmt (PStr ''report.txt'')]) \<and>
   run (PDFTK_cli no_files)
       (no_args\<lparr>pdftk_input := [PStr ''missing.pdf''],
                pdftk_output := [PStr ''output'', PStr ''report.txt'']\<rparr>) =
     ([ValidateInput],
      Inl (ValidationError [Lit ''Invalid input value: '', Fmt (PStr ''missing.pdf'')]))"
proof -
  let ?self = "no_args\<lparr>pdftk_input := [PStr ''missing.pdf''],
                        pdftk_output := [PStr ''output'', PStr ''report.txt'']\<rparr>"
  let ?e = "ValidationError [Lit ''Invalid input value: '', Fmt (PStr ''missing.pdf'')]"
  have c: "PDFTK (PStr ''missing.pdf'') (PStr ''report.txt'') PNone PNone = Inr ?self"
    by code_simp
  have ne: "\<not> test_args_empty (PDFTK_cli no_files) ?self"
    by (simp add: PDFTK_cli_def PDFTK_test_args_empty_def)
  have vi: "validate_input (PDFTK_cli no_files) ?self = Inl ?e"
    by (simp add: PDFTK_cli_def PDFTK_validate_input_def no_files_def)
  have vo: "validate_output (PDFTK_cli no_files) ?self =
      Inl (ValidationError [Lit ''Invalid output value: '', Fmt (PStr ''report.txt'')])"
    by code_simp
  from run_validates_in_order [OF ne, of ?e] vi
  have "run (PDFTK_cli no_files) ?self = ([ValidateInput], Inl ?e)"
    by blast
  with c ne vi vo show ?thesis by blast
qed

text \<open>
  C7.  For the PDF binding, \<open>run\<close> starts the health check \<^verbatim>\<open>["pdftk", "--version"]\<close>,
  with no validator called before it, exactly when the input, output and operation groups
  are all empty; the other groups (options, passwords, permissions, operation arguments)
  do not enter the condition.
\<close>

theorem PDFTK_health_check_iff_no_work:
  "run (PDFTK_cli isfile) self =
     ([Subprocess [PStr ''pdftk'', PStr ''--version'']],
      Inr [PStr ''pdftk'', PStr ''--version''])
   \<longleftrightarrow> (pdftk_input self = [] \<and> pdftk_output self = [] \<and> pdftk_operation self = [])"
  by (auto simp add: run_def PDFTK_cli_def PDFTK_test_args_empty_def Let_def
      split: sum.splits)

text \<open>With the options \<^verbatim>\<open>{"flatten": True}\<close> alone the option groups \<^verbatim>\<open>flatten\<close> and
  \<^verbatim>\<open>ask\<close> are not empty, and the health check still runs.\<close>

theorem PDFTK_health_check_iff_no_work_witness:
  "PDFTK PNone PNone PNone (PDict [(PStr ''flatten'', PBool True)]) =
     Inr (no_args\<lparr>pdftk_flatten := [PStr ''flatten''], pdftk_ask := [PStr ''dont_ask'']\<rparr>) \<and>
   run (PDFTK_cli no_files)
       (no_args\<lparr>pdftk_flatten := [PStr ''flatten''], pdftk_ask := [PStr ''dont_ask'']\<rparr>) =
     ([Subprocess [PStr ''pdftk'', PStr ''--version'']],
      Inr [PStr ''pdftk'', PStr ''--version'']) \<and>
   run (PDFTK_cli no_files) (no_args\<lparr>pdftk_input := [PStr ''PROMPT'']\<rparr>) \<noteq>
     ([Subprocess [PStr ''pdftk'', PStr ''--version'']],
      Inr [PStr ''pdftk'', PStr ''--version''])"
proof -
  have c: "PDFTK PNone PNone PNone (PDict [(PStr ''flatten'', PBool True)]) =
     Inr (no_args\<lparr>pdftk_flatten := [PStr ''flatten''], pdftk_ask := [PStr ''dont_ask'']\<rparr>)"
    by code_simp
  show ?thesis
    using c
      PDFTK_health_check_iff_no_work [of no_files
        "no_args\<lparr>pdftk_flatten := [PStr ''flatten''], pdftk_ask := [PStr ''dont_ask'']\<rparr>"]
      PDFTK_health_check_iff_no_work [of no_files "no_args\<lparr>pdftk_input := [PStr ''PROMPT'']\<rparr>"]
    by (simp add: no_args_def)
qed

section \<open>Properties of the PDF binding's options\<close>

text \<open>
  C6.  \<^verbatim>\<open>format_encrypt\<close> maps 40 to the token \<^verbatim>\<open>encrypt_40bit\<close>, 128 to \<^verbatim>\<open>encrypt_128bit\<close>
  and an absent value to no token.  Every other value raises the generic exception, which
  is no validation error, and it does so while the object is constructed: the constructor
  returns that exception whenever the operators are acceptable.
\<close>

theorem format_encrypt_levels:
  "format_encrypt (PInt 40) = Inr [PStr ''encrypt_40bit''] \<and>
   format_encrypt (PInt 128) = Inr [PStr ''encrypt_128bit''] \<and>
   format_encrypt PNone = Inr [] \<and>
   (v \<noteq> PNone \<and> v \<noteq> PInt 40 \<and> v \<noteq> PInt 128 \<longrightarrow>
      format_encrypt v = Inl (PyException [Lit ''Invalid encrypt option '', Fmt v,
                                           Lit ''. Value must be 40 or 128'']) \<and>
      format_encrypt v \<noteq> Inl (ValidationError msg) \<and>
      (dict_get kvs ''encrypt'' = v \<and> assign_operators operators = Inr groups \<longrightarrow>
         PDFTK inp output operators (PDict kvs) =
           Inl (PyException [Lit ''Invalid encrypt option '', Fmt v,
                             Lit ''. Value must be 40 or 128''])))"
proof -
  obtain t where t: "assign_input inp = Inr t" using assign_input_total by blast
  show ?thesis
    by (auto simp add: format_encrypt_def PDFTK_def t assign_options_def split: prod.splits)
qed

theorem format_encrypt_levels_witness:
  "PInt 64 \<noteq> PNone \<and> PInt 64 \<noteq> PInt 40 \<and> PInt 64 \<noteq> PInt 128 \<and>
   dict_get [(PStr ''encrypt'', PInt 64)] ''encrypt'' = PInt 64 \<and>
   assign_operators PNone = Inr ([], [], [], [], [], []) \<and>
   format_encrypt (PInt 64) =
     Inl (PyException [Lit ''Invalid encrypt option '', Fmt (PInt 64),
                       Lit ''. Value must be 40 or 128'']) \<and>
   PDFTK (PStr ''a.pdf'') (PStr ''b.pdf'') PNone (PDict [(PStr ''encrypt'', PInt 64)]) =
     Inl (PyException [Lit ''Invalid encrypt option '', Fmt (PInt 64),
                       Lit ''. Value must be 40 or 128''])"
proof -
  have d: "dict_get [(PStr ''encrypt'', PInt 64)] ''encrypt'' = PInt 64"
    by (simp add: dict_get_def)
  have a: "assign_operators PNone = Inr ([], [], [], [], [], [])"
    by (simp add: assign_operators_def)
  from d a
    format_encrypt_levels [of "PInt 64" _ "[(PStr ''encrypt'', PInt 64)]" PNone
      "([], [], [], [], [], [])" "PStr ''a.pdf''" "PStr ''b.pdf''"]
  show ?thesis by simp
qed

text \<open>
  C2.  The constructor unpacks the groups of \<^verbatim>\<open>assign_options\<close> in the order
  \<^verbatim>\<open>keep_first_id, keep_final_id, drop_xfa\<close>, while \<^verbatim>\<open>assign_options\<close> returns them in the
  order \<^verbatim>\<open>drop_xfa, keep_first_id, keep_final_id\<close>.  With the option \<^verbatim>\<open>drop_xfa\<close> set, its
  token lands in the group \<^verbatim>\<open>keep_first_id\<close>, and \<^verbatim>\<open>validate_options\<close> rejects it there.
\<close>

theorem drop_xfa_token_is_rejected:
  "PDFTK (PStr ''PROMPT'') PNone PNone (PDict [(PStr ''drop_xfa'', PBool True)]) =
     Inr (no_args\<lparr>pdftk_input := [PStr ''PROMPT''],
                  pdftk_keep_first_id := [PStr ''drop_xfa''],
                  pdftk_ask := [PStr ''dont_ask'']\<rparr>) \<and>
   PDFTK_validate_options
     (no_args\<lparr>pdftk_input := [PStr ''PROMPT''],
              pdftk_keep_first_id := [PStr ''drop_xfa''],
              pdftk_ask := [PStr ''dont_ask'']\<rparr>) =
     Inl (ValidationError [Lit ''Invalid option '', Fmt (PList [PStr ''drop_xfa''])]) \<and>
   PDFTK_run no_files (PStr ''PROMPT'') PNone PNone (PDict [(PStr ''drop_xfa'', PBool True)]) =
     ([ValidateInput, ValidateOutput, ValidateOperators, ValidateOptions],
      Inl (ValidationError [Lit ''Invalid option '', Fmt (PList [PStr ''drop_xfa''])]))"
proof -
  have a: "PDFTK (PStr ''PROMPT'') PNone PNone (PDict [(PStr ''drop_xfa'', PBool True)]) =
     Inr (no_args\<lparr>pdftk_input := [PStr ''PROMPT''],
                  pdftk_keep_first_id := [PStr ''drop_xfa''],
                  pdftk_ask := [PStr ''dont_ask'']\<rparr>)"
    by code_simp
  have b: "PDFTK_validate_options
     (no_args\<lparr>pdftk_input := [PStr ''PROMPT''],
              pdftk_keep_first_id := [PStr ''drop_xfa''],
              pdftk_ask := [PStr ''dont_ask'']\<rparr>) =
     Inl (ValidationError [Lit ''Invalid option '', Fmt (PList [PStr ''drop_xfa''])])"
    by code_simp
  have c: "PDFTK_run no_files (PStr ''PROMPT'') PNone PNone
       (PDict [(PStr ''drop_xfa'', PBool True)]) =
     ([ValidateInput, ValidateOutput, ValidateOperators, ValidateOptions],
      Inl (ValidationError [Lit ''Invalid option '', Fmt (PList [PStr ''drop_xfa''])]))"
    by code_simp
  from a b c show ?thesis by blast
qed

section \<open>Properties of the PDF binding's validators\<close>

text \<open>
  C3.  \<^verbatim>\<open>validate_pw\<close> examines the first token of a password group.  For the owner and
  the user password that token is the flag (\<^verbatim>\<open>owner_pw\<close>, \<^verbatim>\<open>user_pw\<close>) that
  \<^verbatim>\<open>format_op_args\<close> puts in front, so the check passes whatever the password is: with
  the empty owner password the command is built and run.  The input password has no flag
  in front, and an empty one is rejected.
\<close>

theorem empty_owner_pw_is_accepted:
  "validate_pw ''owner_pw'' (format_op_args ''owner_pw'' v) = Inr () \<and>
   validate_pw ''user_pw'' (format_op_args ''user_pw'' v) = Inr () \<and>
   PDFTK_run no_files (PStr ''PROMPT'') PNone (PDict [(PStr ''owner_pw'', PStr [])]) PNone =
     ([ValidateInput, ValidateOutput, ValidateOperators, ValidateOptions, PrepareCommand,
       Subprocess [PStr ''pdftk'', PStr ''PROMPT'', PStr ''owner_pw'', PStr []]],
      Inr [PStr ''pdftk'', PStr ''PROMPT'', PStr ''owner_pw'', PStr []]) \<and>
   PDFTK_run no_files (PStr ''PROMPT'') PNone (PDict [(PStr ''input_pw'', PStr [])]) PNone =
     ([ValidateInput, ValidateOutput, ValidateOperators],
      Inl (ValidationError [Lit ''Invalid '', Fmt (PStr ''input_pw''), Lit '': '',
                            Fmt (PList [PStr []])]))"
proof -
  have o: "search_nonspace ''owner_pw''" by code_simp
  have u: "search_nonspace ''user_pw''" by code_simp
  have a: "validate_pw ''owner_pw'' (format_op_args ''owner_pw'' v) = Inr ()"
    by (cases v) (simp_all add: o)
  have b: "validate_pw ''user_pw'' (format_op_args ''user_pw'' v) = Inr ()"
    by (cases v) (simp_all add: u)
  have c: "PDFTK_run no_files (PStr ''PROMPT'') PNone
       (PDict [(PStr ''owner_pw'', PStr [])]) PNone =
     ([ValidateInput, ValidateOutput, ValidateOperators, ValidateOptions, PrepareCommand,
       Subprocess [PStr ''pdftk'', PStr ''PROMPT'', PStr ''owner_pw'', PStr []]],
      Inr [PStr ''pdftk'', PStr ''PROMPT'', PStr ''owner_pw'', PStr []])"
    by code_simp
  have d: "PDFTK_run no_files (PStr ''PROMPT'') PNone
       (PDict [(PStr ''input_pw'', PStr [])]) PNone =
     ([ValidateInput, ValidateOutput, ValidateOperators],
      Inl (ValidationError [Lit ''Invalid '', Fmt (PStr ''input_pw''), Lit '': '',
                            Fmt (PList [PStr []])]))"
    by code_simp
  from a b c d show ?thesis by blast
qed

subsection \<open>The regular expressions\<close>

lemma search_dot_pdf_iff:
  "search_dot_pdf s \<longleftrightarrow> (\<exists>pre c post. s = pre @ c # ''.pdf'' @ post \<and> c \<noteq> CHR 0x0A)"
proof (induction s)
  case Nil
  then show ?case by simp
next
  case (Cons a s)
  show ?case
  proof
    assume "search_dot_pdf (a # s)"
    then consider "a \<noteq> CHR 0x0A \<and> take 4 s = ''.pdf''" | "search_dot_pdf s" by auto
    then show "\<exists>pre c post. a # s = pre @ c # ''.pdf'' @ post \<and> c \<noteq> CHR 0x0A"
    proof cases
      case 1
      then have "s = ''.pdf'' @ drop 4 s" by (metis append_take_drop_id)
      with 1 have "a # s = [] @ a # ''.pdf'' @ drop 4 s \<and> a \<noteq> CHR 0x0A" by simp
      then show ?thesis by blast
    next
      case 2
      then obtain pre c post where "s = pre @ c # ''.pdf'' @ post" "c \<noteq> CHR 0x0A"
        using Cons.IH by blast
      then have "a # s = (a # pre) @ c # ''.pdf'' @ post \<and> c \<noteq> CHR 0x0A" by simp
      then show ?thesis by blast
    qed
  next
    assume "\<exists>pre c post. a # s = pre @ c # ''.pdf'' @ post \<and> c \<noteq> CHR 0x0A"
    then obtain pre c post where h: "a # s = pre @ c # ''.pdf'' @ post" "c \<noteq> CHR 0x0A"
      by blast
    show "search_dot_pdf (a # s)"
    proof (cases pre)
      case Nil
      with h show ?thesis by simp
    next
      case (Cons p ps)
      with h have "s = ps @ c # ''.pdf'' @ post" by simp
      with h(2) have "search_dot_pdf s" using Cons.IH by blast
      then show ?thesis by simp
    qed
  qed
qed

lemma search_literal_iff:
  "search_literal pat s \<longleftrightarrow> (\<exists>pre post. s = pre @ pat @ post)"
proof (induction s)
  case Nil
  then show ?case by auto
next
  case (Cons a s)
  show ?case
  proof
    assume "search_literal pat (a # s)"
    then consider "take (length pat) (a # s) = pat" | "search_literal pat s" by auto
    then show "\<exists>pre post. a # s = pre @ pat @ post"
    proof cases
      case 1
      then have "a # s = [] @ pat @ drop (length pat) (a # s)"
        by (metis append_Nil append_take_drop_id)
      then show ?thesis by blast
    next
      case 2
      then obtain pre post where "s = pre @ pat @ post" using Cons.IH by blast
      then have "a # s = (a # pre) @ pat @ post" by simp
      then show ?thesis by blast
    qed
  next
    assume "\<exists>pre post. a # s = pre @ pat @ post"
    then obtain pre post where h: "a # s = pre @ pat @ post" by blast
    show "search_literal pat (a # s)"
    proof (cases pre)
      case Nil
      with h have "take (length pat) (a # s) = pat" by simp
      then show ?thesis by simp
    next
      case (Cons p ps)
      with h have "s = ps @ pat @ post" by simp
      then have "search_literal pat s" using Cons.IH by blast
      then show ?thesis by simp
    qed
  qed
qed

subsection \<open>The loops of the validators\<close>

lemma validate_input_loop_result:
  "snd (validate_input_loop isfile toks probed) =
     (case find (\<lambda>i. \<not> input_passes isfile i) toks of
        None \<Rightarrow> Inr ()
      | Some i \<Rightarrow> Inl (ValidationError [Lit ''Invalid input value: '', Fmt i]))"
proof (induction toks arbitrary: probed)
  case Nil
  then show ?case by simp
next
  case (Cons a toks)
  then show ?case by (cases a) (auto simp add: input_passes_def)
qed

lemma validate_input_loop_probes:
  "snd (validate_input_loop isfile toks probed) = Inr () \<Longrightarrow>
   map PStr (fst (validate_input_loop isfile toks probed)) = map PStr probed @ toks"
proof (induction toks arbitrary: probed)
  case Nil
  then show ?case by simp
next
  case (Cons a toks)
  then show ?case by (cases a) (auto split: if_splits)
qed

lemma find_None_iff_all: "find P xs = None \<longleftrightarrow> (\<forall>x \<in> set xs. \<not> P x)"
  by (induction xs) auto

lemma find_Some_member: "find P xs = Some x \<Longrightarrow> x \<in> set xs \<and> P x"
  by (induction xs) (auto split: if_splits)

text \<open>
  C4.  The claim asks that an output token be rejected unless it is a \<^verbatim>\<open>.pdf\<close> file
  name or the word \<^verbatim>\<open>PROMPT\<close>.  \<^verbatim>\<open>validate_output\<close> tests the token with
  \<^verbatim>\<open>re.search\<close>, which is content with a match inside the token: the outputs
  \<^verbatim>\<open>report.pdf.txt\<close> and \<^verbatim>\<open>xPROMPTy\<close>, neither of them a \<^verbatim>\<open>.pdf\<close> file name nor
  \<^verbatim>\<open>PROMPT\<close> nor an input token, pass, and the command that writes to
  \<^verbatim>\<open>report.pdf.txt\<close> is run.  (\<^verbatim>\<open>validate_input\<close> compares with \<^verbatim>\<open>PROMPT\<close> exactly and
  rejects \<^verbatim>\<open>xPROMPTy\<close>.)  The two examples of the claim are rejected as it says.
\<close>

theorem validate_output_accepts_pdf_inside_name:
  "PDFTK (PStr ''PROMPT'') (PStr ''report.pdf.txt'') PNone PNone =
     Inr (no_args\<lparr>pdftk_input := [PStr ''PROMPT''],
                  pdftk_output := [PStr ''output'', PStr ''report.pdf.txt'']\<rparr>) \<and>
   PDFTK_validate_output
     (no_args\<lparr>pdftk_input := [PStr ''PROMPT''],
              pdftk_output := [PStr ''output'', PStr ''report.pdf.txt'']\<rparr>) = Inr () \<and>
   \<not> spec_pdf_filename_or_PROMPT ''report.pdf.txt'' \<and>
   PDFTK_run no_files (PStr ''PROMPT'') (PStr ''report.pdf.txt'') PNone PNone =
     ([ValidateInput, ValidateOutput, ValidateOperators, ValidateOptions, PrepareCommand,
       Subprocess [PStr ''pdftk'', PStr ''PROMPT'', PStr ''output'', PStr ''report.pdf.txt'']],
      Inr [PStr ''pdftk'', PStr ''PROMPT'', PStr ''output'', PStr ''report.pdf.txt'']) \<and>
   PDFTK_validate_output
     (no_args\<lparr>pdftk_input := [PStr ''PROMPT''],
              pdftk_output := [PStr ''output'', PStr ''xPROMPTy'']\<rparr>) = Inr () \<and>
   \<not> spec_pdf_filename_or_PROMPT ''xPROMPTy'' \<and>
   snd (PDFTK_validate_input no_files (no_args\<lparr>pdftk_input := [PStr ''xPROMPTy'']\<rparr>)) =
     Inl (ValidationError [Lit ''Invalid input value: '', Fmt (PStr ''xPROMPTy'')]) \<and>
   PDFTK_validate_output
     (no_args\<lparr>pdftk_input := [PStr ''PROMPT''],
              pdftk_output := [PStr ''output'', PStr ''report.txt'']\<rparr>) =
     Inl (ValidationError [Lit ''Invalid output value: '', Fmt (PStr ''report.txt'')]) \<and>
   PDFTK_validate_output
     (no_args\<lparr>pdftk_input := [PStr ''report.pdf''],
              pdftk_output := [PStr ''output'', PStr ''report.pdf'']\<rparr>) =
     Inl (ValidationError [Lit ''Invalid output value: '', Fmt (PStr ''report.pdf'')])"
proof -
  have a: "PDFTK (PStr ''PROMPT'') (PStr ''report.pdf.txt'') PNone PNone =
     Inr (no_args\<lparr>pdftk_input := [PStr ''PROMPT''],
                  pdftk_output := [PStr ''output'', PStr ''report.pdf.txt'']\<rparr>)"
    by code_simp
  have b: "PDFTK_validate_output
     (no_args\<lparr>pdftk_input := [PStr ''PROMPT''],
              pdftk_output := [PStr ''output'', PStr ''report.pdf.txt'']\<rparr>) = Inr ()"
    by code_simp
  have c: "\<not> spec_pdf_filename_or_PROMPT ''report.pdf.txt''"
    by code_simp
  have d: "PDFTK_run no_files (PStr ''PROMPT'') (PStr ''report.pdf.txt'') PNone PNone =
     ([ValidateInput, ValidateOutput, ValidateOperators, ValidateOptions, PrepareCommand,
       Subprocess [PStr ''pdftk'', PStr ''PROMPT'', PStr ''output'', PStr ''report.pdf.txt'']],
      Inr [PStr ''pdftk'', PStr ''PROMPT'', PStr ''output'', PStr ''report.pdf.txt''])"
    by code_simp
  have e: "PDFTK_validate_output
     (no_args\<lparr>pdftk_input := [PStr ''PROMPT''],
              pdftk_output := [PStr ''output'', PStr ''xPROMPTy'']\<rparr>) = Inr ()"
    by code_simp
  have f: "\<not> spec_pdf_filename_or_PROMPT ''xPROMPTy''"
    by code_simp
  have g: "snd (PDFTK_validate_input no_files (no_args\<lparr>pdftk_input := [PStr ''xPROMPTy'']\<rparr>)) =
     Inl (ValidationError [Lit ''Invalid input value: '', Fmt (PStr ''xPROMPTy'')])"
    by (simp add: PDFTK_validate_input_def no_files_def)
  have h: "PDFTK_validate_output
     (no_args\<lparr>pdftk_input := [PStr ''PROMPT''],
              pdftk_output := [PStr ''output'', PStr ''report.txt'']\<rparr>) =
     Inl (ValidationError [Lit ''Invalid output value: '', Fmt (PStr ''report.txt'')])"
    by code_simp
  have i: "PDFTK_validate_output
     (no_args\<lparr>pdftk_input := [PStr ''report.pdf''],
              pdftk_output := [PStr ''output'', PStr ''report.pdf'']\<rparr>) =
     Inl (ValidationError [Lit ''Invalid output value: '', Fmt (PStr ''report.pdf'')])"
    by code_simp
  from a b c d e f g h i show ?thesis by blast
qed

text \<open>
  C5, as stated, fails in its last part: for the input \<^verbatim>\<open>PROMPT\<close> the validator asks the
  file system about the path \<^verbatim>\<open>PROMPT\<close> (\<^verbatim>\<open>isfile(i)\<close> is the first operand of the
  \<^verbatim>\<open>or\<close>) and compares with the sentinel only after the answer was no.
\<close>

theorem validate_input_asks_about_PROMPT:
  "PDFTK (PStr ''PROMPT'') PNone PNone PNone = Inr (no_args\<lparr>pdftk_input := [PStr ''PROMPT'']\<rparr>) \<and>
   PDFTK_validate_input no_files (no_args\<lparr>pdftk_input := [PStr ''PROMPT'']\<rparr>) =
     ([''PROMPT''], Inr ())"
proof -
  have a: "PDFTK (PStr ''PROMPT'') PNone PNone PNone =
      Inr (no_args\<lparr>pdftk_input := [PStr ''PROMPT'']\<rparr>)"
    by code_simp
  have b: "PDFTK_validate_input no_files (no_args\<lparr>pdftk_input := [PStr ''PROMPT'']\<rparr>) =
     ([''PROMPT''], Inr ())"
    by (simp add: PDFTK_validate_input_def no_files_def)
  from a b show ?thesis by blast
qed

text \<open>
  C5, amended.  \<^verbatim>\<open>validate_input\<close> succeeds exactly when every input token is a string
  that is the path of an existing file or is \<^verbatim>\<open>PROMPT\<close>; otherwise it raises a
  validation error that names the first token that is not.  The token \<^verbatim>\<open>PROMPT\<close>
  passes whatever the file system holds, and when validation succeeds the file system has
  been asked about every input token, \<^verbatim>\<open>PROMPT\<close> included.
\<close>

theorem validate_input_accepts:
  "(snd (PDFTK_validate_input isfile self) = Inr () \<longleftrightarrow>
      (\<forall>i \<in> set (pdftk_input self). input_passes isfile i)) \<and>
   (snd (PDFTK_validate_input isfile self) \<noteq> Inr () \<longrightarrow>
      (\<exists>i \<in> set (pdftk_input self). \<not> input_passes isfile i \<and>
         find (\<lambda>i. \<not> input_passes isfile i) (pdftk_input self) = Some i \<and>
         snd (PDFTK_validate_input isfile self) =
           Inl (ValidationError [Lit ''Invalid input value: '', Fmt i]))) \<and>
   (input_passes isfile i \<longleftrightarrow> (\<exists>s. i = PStr s \<and> (isfile s \<or> s = ''PROMPT''))) \<and>
   input_passes isfile (PStr ''PROMPT'') \<and>
   (snd (PDFTK_validate_input isfile self) = Inr () \<longrightarrow>
      map PStr (fst (PDFTK_validate_input isfile self)) = pdftk_input self)"
proof -
  let ?bad = "\<lambda>i. \<not> input_passes isfile i"
  have v: "snd (PDFTK_validate_input isfile self) =
     (case find ?bad (pdftk_input self) of
        None \<Rightarrow> Inr ()
      | Some i \<Rightarrow> Inl (ValidationError [Lit ''Invalid input value: '', Fmt i]))"
    by (simp add: PDFTK_validate_input_def validate_input_loop_result)
  have 1: "snd (PDFTK_validate_input isfile self) = Inr () \<longleftrightarrow>
      (\<forall>i \<in> set (pdftk_input self). input_passes isfile i)"
  proof (cases "find ?bad (pdftk_input self)")
    case None
    with v have r: "snd (PDFTK_validate_input isfile self) = Inr ()" by simp
    from None have "\<forall>i \<in> set (pdftk_input self). input_passes isfile i"
      by (simp add: find_None_iff_all)
    with r show ?thesis by simp
  next
    case (Some i)
    then show ?thesis using v find_Some_member [OF Some] by auto
  qed
  have 2: "snd (PDFTK_validate_input isfile self) \<noteq> Inr () \<longrightarrow>
      (\<exists>i \<in> set (pdftk_input self). \<not> input_passes isfile i \<and>
         find ?bad (pdftk_input self) = Some i \<and>
         snd (PDFTK_validate_input isfile self) =
           Inl (ValidationError [Lit ''Invalid input value: '', Fmt i]))"
  proof (cases "find ?bad (pdftk_input self)")
    case None
    then show ?thesis using v by simp
  next
    case (Some i)
    then show ?thesis using v find_Some_member [OF Some] by auto
  qed
  have 3: "input_passes isfile i \<longleftrightarrow> (\<exists>s. i = PStr s \<and> (isfile s \<or> s = ''PROMPT''))"
    by (cases i) (simp_all add: input_passes_def)
  have 4: "input_passes isfile (PStr ''PROMPT'')"
    by (simp add: input_passes_def)
  have 5: "snd (PDFTK_validate_input isfile self) = Inr () \<longrightarrow>
      map PStr (fst (PDFTK_validate_input isfile self)) = pdftk_input self"
    using validate_input_loop_probes [of isfile "pdftk_input self" "[]"]
    by (simp add: PDFTK_validate_input_def)
  from 1 2 3 4 5 show ?thesis by blast
qed

text \<open>A file system without files: \<^verbatim>\<open>PROMPT\<close> passes and \<^verbatim>\<open>missing.pdf\<close> is named.\<close>

theorem validate_input_accepts_witness:
  "snd (PDFTK_validate_input no_files
          (no_args\<lparr>pdftk_input := [PStr ''PROMPT'', PStr ''missing.pdf'']\<rparr>)) \<noteq> Inr () \<and>
   \<not> input_passes no_files (PStr ''missing.pdf'') \<and>
   snd (PDFTK_validate_input no_files
          (no_args\<lparr>pdftk_input := [PStr ''PROMPT'', PStr ''missing.pdf'']\<rparr>)) =
     Inl (ValidationError [Lit ''Invalid input value: '', Fmt (PStr ''missing.pdf'')]) \<and>
   snd (PDFTK_validate_input no_files (no_args\<lparr>pdftk_input := [PStr ''PROMPT'']\<rparr>)) = Inr () \<and>
   map PStr (fst (PDFTK_validate_input no_files (no_args\<lparr>pdftk_input := [PStr ''PROMPT'']\<rparr>))) =
     [PStr ''PROMPT'']"
proof -
  let ?self = "no_args\<lparr>pdftk_input := [PStr ''PROMPT'', PStr ''missing.pdf'']\<rparr>"
  let ?ok = "no_args\<lparr>pdftk_input := [PStr ''PROMPT'']\<rparr>"
  have n: "\<not> input_passes no_files (PStr ''missing.pdf'')"
    by (simp add: input_passes_def no_files_def)
  have p: "input_passes no_files (PStr ''PROMPT'')"
    by (simp add: input_passes_def)
  have f: "find (\<lambda>i. \<not> input_passes no_files i) (pdftk_input ?self) = Some (PStr ''missing.pdf'')"
    by (simp add: n p)
  have a: "snd (PDFTK_validate_input no_files ?self) \<noteq> Inr ()"
    using validate_input_accepts [of no_files ?self] n by simp
  with validate_input_accepts [of no_files ?self] f
  have b: "snd (PDFTK_validate_input no_files ?self) =
     Inl (ValidationError [Lit ''Invalid input value: '', Fmt (PStr ''missing.pdf'')])"
    by auto
  have c: "snd (PDFTK_validate_input no_files ?ok) = Inr ()"
    using validate_input_accepts [of no_files ?ok] p by simp
  with validate_input_accepts [of no_files ?ok]
  have d: "map PStr (fst (PDFTK_validate_input no_files ?ok)) = [PStr ''PROMPT'']"
    by simp
  from n a b c d show ?thesis by blast
qed

section \<open>Properties of the image binding\<close>

lemma update_fresh: "k \<notin> fst ` set al \<Longrightarrow> AList.update k v al = al @ [(k, v)]"
  by (induction al) auto

lemma foldl_update_distinct:
  "distinct (map fst (acc @ ps)) \<Longrightarrow>
   foldl (\<lambda>d (k, v). AList.update k v d) acc ps = acc @ ps"
proof (induction ps arbitrary: acc)
  case Nil
  then show ?case by simp
next
  case (Cons p ps)
  obtain k v where p: "p = (k, v)" by (cases p)
  from Cons.prems p have fresh: "k \<notin> fst ` set acc" by auto
  from Cons.prems p have "distinct (map fst ((acc @ [(k, v)]) @ ps))" by simp
  then have "foldl (\<lambda>d (k, v). AList.update k v d) (acc @ [(k, v)]) ps = (acc @ [(k, v)]) @ ps"
    by (rule Cons.IH)
  with fresh p show ?case by (simp add: update_fresh)
qed

lemma py_dict_distinct: "distinct (map fst ps) \<Longrightarrow> py_dict ps = ps"
  using foldl_update_distinct [of "[]" ps] by (simp add: py_dict_def)

lemma getitem_setting:
  "py_getitem (setting position val) ''type'' = Inr (PStr ''setting'')"
  "py_getitem (setting position val) ''position'' = Inr (PStr position)"
  "py_getitem (setting position val) ''value'' = Inr val"
  by (simp_all add: setting_def)

lemma get_settings_pairs_specs:
  "get_settings_pairs
     (map (\<lambda>(name, position, val). (PStr name, setting position val)) specs) position
   = Inr (retained position specs)"
  by (induction specs) (auto simp add: retained_def getitem_setting)

lemma retained_distinct:
  assumes "distinct (map fst specs)"
  shows "distinct (map fst (retained position specs))"
proof -
  have eq: "map fst (retained position specs) =
        map PStr (map fst (filter (\<lambda>(name, pos, val). pos = position) specs))"
    by (simp add: retained_def case_prod_beta comp_def)
  have "distinct (map fst (filter (\<lambda>(name, pos, val). pos = position) specs))"
    using assms by (rule distinct_map_filter)
  then show ?thesis unfolding eq by (simp add: distinct_map inj_on_def)
qed

lemma flatten_items_retained:
  "flatten_items (retained position specs) = Inr (setting_tokens position specs)"
  unfolding retained_def setting_tokens_def
  by (induction specs) auto

lemma assign_operators_specs:
  assumes "distinct (map fst specs)"
  shows "Magick_assign_operators (operator_map specs) =
           Inr (setting_tokens ''pre'' specs, setting_tokens ''post'' specs)"
  using assms
  by (simp add: Magick_assign_operators_def operator_map_def get_settings_pairs_specs
      py_dict_distinct retained_distinct flatten_items_retained)

text \<open>
  C8.  For the image binding, an operator map whose entries are settings with distinct
  names is split by position: the settings at \<^verbatim>\<open>pre\<close> and those at \<^verbatim>\<open>post\<close>, each in
  insertion order, each as the pair of \<^verbatim>\<open>-name\<close> and the string form of its value.  The
  command is \<^verbatim>\<open>magick\<close>, the pre-image settings, the input tokens, the post-image
  settings, the output tokens, and \<open>run\<close> hands exactly this command to the subprocess.
\<close>

theorem Magick_command_of_settings:
  assumes "distinct (map fst specs)"
  shows "\<exists>input_tokens. default_var inp [] = Inr input_tokens \<and>
     Magick inp output (operator_map specs) =
       Inr \<lparr>magick_input = input_tokens,
            magick_output = Magick_assign_output output,
            pre_image_settings = setting_tokens ''pre'' specs,
            post_image_settings = setting_tokens ''post'' specs\<rparr> \<and>
     (output \<noteq> PNone \<longrightarrow>
        Magick_run inp output (operator_map specs) =
          ([ValidateInput, ValidateOutput, ValidateOperators, ValidateOptions, PrepareCommand,
            Subprocess ([PStr ''magick''] @ setting_tokens ''pre'' specs @ input_tokens @
                        setting_tokens ''post'' specs @ [output])],
           Inr ([PStr ''magick''] @ setting_tokens ''pre'' specs @ input_tokens @
                setting_tokens ''post'' specs @ [output])))"
proof -
  obtain t where t: "default_var inp [] = Inr t" using default_var_total by blast
  have m: "Magick inp output (operator_map specs) =
       Inr \<lparr>magick_input = t, magick_output = Magick_assign_output output,
            pre_image_settings = setting_tokens ''pre'' specs,
            post_image_settings = setting_tokens ''post'' specs\<rparr>"
    using assms by (simp add: Magick_def Magick_assign_input_def t assign_operators_specs)
  have r: "output \<noteq> PNone \<longrightarrow>
       Magick_run inp output (operator_map specs) =
       ([ValidateInput, ValidateOutput, ValidateOperators, ValidateOptions, PrepareCommand,
         Subprocess ([PStr ''magick''] @ setting_tokens ''pre'' specs @ t @
                     setting_tokens ''post'' specs @ [output])],
        Inr ([PStr ''magick''] @ setting_tokens ''pre'' specs @ t @
             setting_tokens ''post'' specs @ [output]))"
    by (simp add: Magick_run_def m run_def Magick_cli_def Magick_test_args_empty_def
        Magick_prepare_command_def Magick_assign_output_def Let_def)
  from t m r show ?thesis by blast
qed

text \<open>The example of the specification: density 300 before the image, depth 8 after it,
  from \<^verbatim>\<open>a.pdf\<close> to \<^verbatim>\<open>a.tiff\<close>.\<close>

theorem Magick_command_of_settings_witness:
  "distinct (map fst [(''density'', ''pre'', PInt 300), (''depth'', ''post'', PInt 8)]) \<and>
   operator_map [(''density'', ''pre'', PInt 300), (''depth'', ''post'', PInt 8)] =
     PDict [(PStr ''density'', PDict [(PStr ''type'', PStr ''setting''),
                                      (PStr ''position'', PStr ''pre''),
                                      (PStr ''value'', PInt 300)]),
            (PStr ''depth'', PDict [(PStr ''type'', PStr ''setting''),
                                    (PStr ''position'', PStr ''post''),
                                    (PStr ''value'', PInt 8)])] \<and>
   Magick_run (PStr ''a.pdf'') (PStr ''a.tiff'')
     (operator_map [(''density'', ''pre'', PInt 300), (''depth'', ''post'', PInt 8)]) =
     ([ValidateInput, ValidateOutput, ValidateOperators, ValidateOptions, PrepareCommand,
       Subprocess [PStr ''magick'', PStr ''-density'', PStr ''300'', PStr ''a.pdf'',
                   PStr ''-depth'', PStr ''8'', PStr ''a.tiff'']],
      Inr [PStr ''magick'', PStr ''-density'', PStr ''300'', PStr ''a.pdf'',
           PStr ''-depth'', PStr ''8'', PStr ''a.tiff''])"
proof -
  let ?specs = "[(''density'', ''pre'', PInt 300), (''depth'', ''post'', PInt 8)]"
  have d: "distinct (map fst ?specs)" by simp
  have o: "operator_map ?specs =
     PDict [(PStr ''density'', PDict [(PStr ''type'', PStr ''setting''),
                                      (PStr ''position'', PStr ''pre''),
                                      (PStr ''value'', PInt 300)]),
            (PStr ''depth'', PDict [(PStr ''type'', PStr ''setting''),
                                    (PStr ''position'', PStr ''post''),
                                    (PStr ''value'', PInt 8)])]"
    by (simp add: operator_map_def setting_def)
  have i: "default_var (PStr ''a.pdf'') [] = Inr [PStr ''a.pdf'']"
    by (simp add: default_var_shapes)
  have pre: "setting_tokens ''pre'' ?specs = [PStr ''-density'', PStr ''300'']"
    by code_simp
  have post: "setting_tokens ''post'' ?specs = [PStr ''-depth'', PStr ''8'']"
    by code_simp
  from Magick_command_of_settings [OF d, of "PStr ''a.pdf''" "PStr ''a.tiff''"] i pre post
  have "Magick_run (PStr ''a.pdf'') (PStr ''a.tiff'') (operator_map ?specs) =
     ([ValidateInput, ValidateOutput, ValidateOperators, ValidateOptions, PrepareCommand,
       Subprocess [PStr ''magick'', PStr ''-density'', PStr ''300'', PStr ''a.pdf'',
                   PStr ''-depth'', PStr ''8'', PStr ''a.tiff'']],
      Inr [PStr ''magick'', PStr ''-density'', PStr ''300'', PStr ''a.pdf'',
           PStr ''-depth'', PStr ''8'', PStr ''a.tiff''])"
    by auto
  with d o show ?thesis by blast
qed

end
